theory Spec2Isabelle
  imports Main
begin

section \<open>Strings and errors\<close>

text \<open>
  JavaScript's \<^verbatim>\<open>msg.includes(pat)\<close>: \<open>pat\<close> occurs in \<open>msg\<close> as a contiguous
  substring. \<open>startsWith\<close> is the test at one position.
\<close>

fun startsWith :: "string \<Rightarrow> string \<Rightarrow> bool" where
  "startsWith s [] = True"
| "startsWith [] (p # ps) = False"
| "startsWith (c # cs) (p # ps) = (c = p \<and> startsWith cs ps)"

fun str_includes :: "string \<Rightarrow> string \<Rightarrow> bool" where
  "str_includes [] pat = (pat = [])"
| "str_includes (c # cs) pat = (startsWith (c # cs) pat \<or> str_includes cs pat)"

text \<open>
  The error values of \<^verbatim>\<open>errors.ts\<close> that the modelled code throws, each with the fields
  the code fills in. \<open>PlainError\<close> is a JavaScript \<^verbatim>\<open>Error(message)\<close>; \<open>ZodError\<close>
  is what \<^verbatim>\<open>schema.parse\<close> throws. \<open>FiberFailure\<close> is the error with which the
  promise of \<^verbatim>\<open>Effect.runPromise\<close> rejects when the effect fails: an \<^verbatim>\<open>Error\<close> of
  the Effect library that is not an instance of the class of the failure and has neither its
  \<^verbatim>\<open>_tag\<close> nor its \<^verbatim>\<open>cause\<close>; it takes the message of the failure and keeps the
  failure itself out of the caller's sight (the argument of the constructor). All of them
  are instances of \<^verbatim>\<open>Error\<close>, so
  \<^verbatim>\<open>error instanceof Error ? error.message : String(error)\<close> is \<open>message\<close>.
\<close>

datatype js_error =
    PlainError string
  | ZodError string
  | ContainerStartError string string "js_error option"
  | SessionNotConnectedError string string
  | BrowserError string js_error
  | NavigationError string string js_error
  | FiberFailure js_error

fun message :: "js_error \<Rightarrow> string" where
  "message (PlainError m) = m"
| "message (ZodError m) = m"
| "message (ContainerStartError m sessionId cause) = m"
| "message (SessionNotConnectedError m sessionId) = m"
| "message (BrowserError m cause) = m"
| "message (NavigationError m url cause) = m"
| "message (FiberFailure failure) = message failure"

definition isRetryableError :: "js_error \<Rightarrow> bool" where
  "isRetryableError error =
     (let msg = message error in
        str_includes msg ''Connection refused'' \<or>
        str_includes msg ''container port not found'' \<or>
        str_includes msg ''Monitor failed'' \<or>
        str_includes msg ''The operation was aborted'' \<or>
        str_includes msg ''timeout'' \<or>
        str_includes msg ''Container crashed'' \<or>
        (str_includes msg ''Container start failed'' \<and> \<not> str_includes msg ''non-retryable''))"

definition isNonRetryableError :: "js_error \<Rightarrow> bool" where
  "isNonRetryableError error =
     (let msg = message error in
        str_includes msg ''non-retryable'' \<or>
        str_includes msg ''validation'' \<or>
        str_includes msg ''invalid'')"

section \<open>Circuit breaker\<close>

text \<open>
  \<^verbatim>\<open>circuitBreakerState\<close> is a module-level \<^verbatim>\<open>Map\<close> from session id to
  \<^verbatim>\<open>{ failures, lastFailure, open }\<close>. The functions below take the map and the value of
  \<^verbatim>\<open>Date.now()\<close> (milliseconds) and return the updated map.
\<close>

record cb_entry =
  failures :: nat
  lastFailure :: int
  isOpen :: bool

type_synonym cb_map = "string \<rightharpoonup> cb_entry"

definition CIRCUIT_BREAKER_THRESHOLD :: nat where
  "CIRCUIT_BREAKER_THRESHOLD = 5"

definition CIRCUIT_BREAKER_WINDOW_MS :: int where
  "CIRCUIT_BREAKER_WINDOW_MS = 5 * 60 * 1000"

definition CIRCUIT_BREAKER_COOLDOWN_MS :: int where
  "CIRCUIT_BREAKER_COOLDOWN_MS = 10 * 60 * 1000"

text \<open>The result pairs the returned boolean (\<open>True\<close>: the attempt is allowed) with the map.\<close>

definition checkCircuitBreaker :: "cb_map \<Rightarrow> string \<Rightarrow> int \<Rightarrow> bool \<times> cb_map" where
  "checkCircuitBreaker cb sessionId now =
     (case cb sessionId of
        None \<Rightarrow> (True, cb)
      | Some state \<Rightarrow>
          if now - lastFailure state > CIRCUIT_BREAKER_WINDOW_MS
          then (True, cb(sessionId := None))
          else if isOpen state
          then (if now - lastFailure state > CIRCUIT_BREAKER_COOLDOWN_MS
                then (True, cb(sessionId := None))
                else (False, cb))
          else (True, cb))"

definition recordCircuitBreakerFailure :: "cb_map \<Rightarrow> string \<Rightarrow> int \<Rightarrow> cb_map" where
  "recordCircuitBreakerFailure cb sessionId now =
     (let state = (case cb sessionId of
                     Some s \<Rightarrow> s
                   | None \<Rightarrow> \<lparr>failures = 0, lastFailure = 0, isOpen = False\<rparr>);
          state = state\<lparr>failures := failures state + 1\<rparr>;
          state = state\<lparr>lastFailure := now\<rparr>;
          state = (if failures state \<ge> CIRCUIT_BREAKER_THRESHOLD
                   then state\<lparr>isOpen := True\<rparr> else state)
      in cb(sessionId \<mapsto> state))"

definition recordCircuitBreakerSuccess :: "cb_map \<Rightarrow> string \<Rightarrow> cb_map" where
  "recordCircuitBreakerSuccess cb sessionId = cb(sessionId := None)"

text \<open>A run of consecutive recorded failures, one per clock reading in the list.\<close>

fun recordFailures :: "cb_map \<Rightarrow> string \<Rightarrow> int list \<Rightarrow> cb_map" where
  "recordFailures cb sessionId [] = cb"
| "recordFailures cb sessionId (t # ts) =
     recordFailures (recordCircuitBreakerFailure cb sessionId t) sessionId ts"

section \<open>Starting the container\<close>

text \<open>
  One request to the container, as \<^verbatim>\<open>container.fetch\<close> and the reading of the
  body can end: the promise rejects with an error of the given message, the response has
  \<^verbatim>\<open>res.ok = false\<close> with a status and a body text, or the response is ok and its
  body parses to a value.
\<close>

datatype 'a http_reply = Rejects string | NotOk nat string | OkJson 'a

text \<open>
  The JSON body of a start response. \<open>dataSuccess\<close> is the truthiness of
  \<^verbatim>\<open>data.success\<close>; an absent \<^verbatim>\<open>data.error\<close> is \<open>None\<close>.
\<close>

record start_data =
  dataSuccess :: bool
  dataError :: "string option"
  dataWsEndpoint :: "string option"

text \<open>
  The body of \<^verbatim>\<open>try\<close> in \<^verbatim>\<open>startBrowser\<close> up to the bookkeeping of the
  circuit breaker: the thrown error or the returned data. An empty string is falsy in
  \<^verbatim>\<open>if (data.error)\<close>.
\<close>

definition startRequest :: "start_data http_reply \<Rightarrow> js_error + start_data" where
  "startRequest reply =
     (case reply of
        Rejects m \<Rightarrow> Inl (PlainError m)
      | NotOk status errorText \<Rightarrow>
          if status \<ge> 400 \<and> status < 500
          then Inl (PlainError (''Container start failed (non-retryable): '' @ errorText))
          else Inl (PlainError (''Container start failed: '' @ errorText))
      | OkJson d \<Rightarrow>
          (case dataError d of
             Some e \<Rightarrow>
               if e \<noteq> [] then Inl (PlainError (''Container start error: '' @ e))
               else if \<not> dataSuccess d
               then Inl (PlainError ''Container start returned success=false'')
               else Inr d
           | None \<Rightarrow>
               if \<not> dataSuccess d
               then Inl (PlainError ''Container start returned success=false'')
               else Inr d))"

text \<open>The \<^verbatim>\<open>catch\<close> of \<^verbatim>\<open>startBrowser\<close>, without the recording of the failure.\<close>

definition startCatch :: "string \<Rightarrow> js_error \<Rightarrow> js_error" where
  "startCatch sessionId thrown =
     (if isNonRetryableError thrown
      then ContainerStartError (message thrown) sessionId (Some thrown)
      else thrown)"

text \<open>The final \<^verbatim>\<open>Effect.mapError\<close>.\<close>

fun toContainerStartError :: "string \<Rightarrow> js_error \<Rightarrow> js_error" where
  "toContainerStartError sessionId (ContainerStartError m s c) = ContainerStartError m s c"
| "toContainerStartError sessionId e = ContainerStartError (message e) sessionId (Some e)"

text \<open>
  \<^verbatim>\<open>containerRetrySchedule\<close>, from the combinators of the Effect library it is built
  of. \<^verbatim>\<open>Schedule.exponential(1000, 2)\<close> waits \<open>1000 * 2 ^ k\<close> ms before recurrence
  \<open>k\<close> (counted from 0); its union with \<^verbatim>\<open>Schedule.spaced(5000)\<close> recurs while
  either does and waits the shorter of the two delays; \<^verbatim>\<open>Schedule.recurs(20)\<close>
  allows 20 recurrences, that is 20 retries after the first run;
  \<^verbatim>\<open>Schedule.whileInput(isRetryableError)\<close> stops at the first error that the
  predicate rejects.
\<close>

definition exponentialDelay :: "nat \<Rightarrow> int" where
  "exponentialDelay k = 1000 * 2 ^ k"

definition containerRetryDelay :: "nat \<Rightarrow> int" where
  "containerRetryDelay k = min (exponentialDelay k) 5000"

definition containerRetryContinues :: "nat \<Rightarrow> js_error \<Rightarrow> bool" where
  "containerRetryContinues k err = (k < 20 \<and> isRetryableError err)"

definition START_TIMEOUT_MS :: int where
  "START_TIMEOUT_MS = 120 * 1000"

text \<open>
  What one call of \<^verbatim>\<open>startBrowser\<close> did: the failure or the data, the number of
  requests sent to the container, the waits between them, the time it took and the map of
  the circuit breaker afterwards.
\<close>

record start_run =
  outcome :: "js_error + start_data"
  calls :: nat
  waits :: "int list"
  elapsed :: int
  breaker :: cb_map

definition startTimedOut :: "string \<Rightarrow> nat \<Rightarrow> int list \<Rightarrow> cb_map \<Rightarrow> start_run" where
  "startTimedOut sessionId n ws cb =
     \<lparr>outcome = Inl (ContainerStartError ''Container start timeout after 2 minutes'' sessionId None),
      calls = n, waits = ws, elapsed = START_TIMEOUT_MS, breaker = cb\<rparr>"

text \<open>
  \<^verbatim>\<open>Effect.tryPromise\<close> under \<^verbatim>\<open>Effect.retry(containerRetrySchedule)\<close> and
  \<^verbatim>\<open>Effect.timeoutFail\<close>. \<open>container k\<close> is how long request \<open>k\<close> takes and how it
  ends; \<open>t0\<close> is the clock when the effect starts, \<open>el\<close> the time since then. A request
  that ends after the deadline is cut off by the timeout, one that ends exactly at the
  deadline still gives its own result; a wait that is not over before the deadline is cut
  off (what an abandoned request does afterwards is not followed). Each failed request
  records a failure at the clock of its end.
\<close>

function retryLoop ::
  "(nat \<Rightarrow> int \<times> start_data http_reply) \<Rightarrow> string \<Rightarrow> int \<Rightarrow> nat \<Rightarrow> int \<Rightarrow> int list
     \<Rightarrow> cb_map \<Rightarrow> start_run" where
  "retryLoop container sessionId t0 k el ws cb =
     (let finished = el + fst (container k) in
      if finished > START_TIMEOUT_MS then startTimedOut sessionId (k + 1) ws cb
      else
        (case startRequest (snd (container k)) of
           Inr d \<Rightarrow>
             \<lparr>outcome = Inr d, calls = k + 1, waits = ws, elapsed = finished,
              breaker = recordCircuitBreakerSuccess cb sessionId\<rparr>
         | Inl thrown \<Rightarrow>
             (let cb' = recordCircuitBreakerFailure cb sessionId (t0 + finished);
                  err = startCatch sessionId thrown
              in if containerRetryContinues k err
                 then
                   (if finished + containerRetryDelay k \<ge> START_TIMEOUT_MS
                    then startTimedOut sessionId (k + 1) (ws @ [containerRetryDelay k]) cb'
                    else retryLoop container sessionId t0 (k + 1)
                           (finished + containerRetryDelay k) (ws @ [containerRetryDelay k]) cb')
                 else
                   \<lparr>outcome = Inl (toContainerStartError sessionId err), calls = k + 1,
                    waits = ws, elapsed = finished, breaker = cb'\<rparr>)))"
  by pat_completeness auto
termination
  by (relation "measure (\<lambda>(container, sessionId, t0, k, el, ws, cb). 20 - k)")
     (auto simp: containerRetryContinues_def)

declare retryLoop.simps [simp del]

text \<open>
  \<^verbatim>\<open>startBrowser(containerNamespace, sessionId, options)\<close>, run at clock \<open>now\<close> against
  the map \<open>cb\<close>. The options only fill the request body.
\<close>

definition circuitOpenMessage :: "string \<Rightarrow> string" where
  "circuitOpenMessage sessionId =
     ''Circuit breaker is open for session '' @ take 8 sessionId @
     ''. Too many consecutive failures. Please wait before retrying.''"

definition startBrowser ::
  "(nat \<Rightarrow> int \<times> start_data http_reply) \<Rightarrow> string \<Rightarrow> cb_map \<Rightarrow> int \<Rightarrow> start_run" where
  "startBrowser container sessionId cb now =
     (case checkCircuitBreaker cb sessionId now of
        (False, cb') \<Rightarrow>
          \<lparr>outcome = Inl (ContainerStartError (circuitOpenMessage sessionId) sessionId None),
           calls = 0, waits = [], elapsed = 0, breaker = cb'\<rparr>
      | (True, cb') \<Rightarrow> retryLoop container sessionId now 0 0 [] cb')"

section \<open>The other container operations\<close>

text \<open>
  \<^verbatim>\<open>stopBrowser\<close>: the status of the response is not read; a rejected request becomes
  a \<open>BrowserError\<close> that \<^verbatim>\<open>Effect.catchAll\<close> logs and replaces by success.
\<close>

definition stopBrowser :: "unit http_reply \<Rightarrow> js_error + unit" where
  "stopBrowser reply =
     (case (case reply of
              Rejects m \<Rightarrow> Inl (BrowserError (''Failed to stop container: '' @ m) (PlainError m))
            | NotOk status errorText \<Rightarrow> Inr ()
            | OkJson u \<Rightarrow> Inr ()) of
        Inl e \<Rightarrow> Inr ()
      | Inr u \<Rightarrow> Inr u)"

definition sendInstruction :: "unit http_reply \<Rightarrow> js_error + unit" where
  "sendInstruction reply =
     (case (case reply of
              Rejects m \<Rightarrow> Inl (PlainError m)
            | NotOk status errorText \<Rightarrow> Inl (PlainError (''Instruction failed: '' @ errorText))
            | OkJson u \<Rightarrow> Inr u) of
        Inl thrown \<Rightarrow>
          Inl (BrowserError (''Failed to send instruction: '' @ message thrown) thrown)
      | Inr u \<Rightarrow> Inr u)"

definition resizeBrowser :: "unit http_reply \<Rightarrow> js_error + unit" where
  "resizeBrowser reply =
     (case (case reply of
              Rejects m \<Rightarrow> Inl (PlainError m)
            | NotOk status errorText \<Rightarrow> Inl (PlainError (''Resize failed: '' @ errorText))
            | OkJson u \<Rightarrow> Inr u) of
        Inl thrown \<Rightarrow> Inl (BrowserError (''Failed to resize: '' @ message thrown) thrown)
      | Inr u \<Rightarrow> Inr u)"

definition reloadBrowser :: "unit http_reply \<Rightarrow> js_error + unit" where
  "reloadBrowser reply =
     (case (case reply of
              Rejects m \<Rightarrow> Inl (PlainError m)
            | NotOk status errorText \<Rightarrow> Inl (PlainError (''Reload failed: '' @ errorText))
            | OkJson u \<Rightarrow> Inr u) of
        Inl thrown \<Rightarrow> Inl (BrowserError (''Failed to reload: '' @ message thrown) thrown)
      | Inr u \<Rightarrow> Inr u)"

definition navigateBrowser :: "string \<Rightarrow> unit http_reply \<Rightarrow> js_error + unit" where
  "navigateBrowser url reply =
     (case sendInstruction reply of
        Inl e \<Rightarrow>
          Inl (NavigationError (''Failed to navigate to '' @ url @ '': '' @ message e) url e)
      | Inr u \<Rightarrow> Inr ())"

text \<open>
  \<^verbatim>\<open>extractData\<close>. The payload and the parsed value are kept as JSON text. The
  schema is its \<^verbatim>\<open>parse\<close> method: the parsed value, or the message of the
  \<open>ZodError\<close> it throws. One \<^verbatim>\<open>catch\<close> wraps whatever the body throws.
\<close>

type_synonym json = string

record extract_data =
  extractSuccess :: bool
  extractError :: "string option"
  extractPayload :: json

definition extractRequest ::
  "(json \<Rightarrow> string + json) \<Rightarrow> extract_data http_reply \<Rightarrow> js_error + json" where
  "extractRequest schema reply =
     (case reply of
        Rejects m \<Rightarrow> Inl (PlainError m)
      | NotOk status errorText \<Rightarrow> Inl (PlainError (''Extraction failed: '' @ errorText))
      | OkJson d \<Rightarrow>
          if \<not> extractSuccess d \<or> (extractError d \<noteq> None \<and> extractError d \<noteq> Some [])
          then Inl (PlainError (case extractError d of
                                  None \<Rightarrow> ''Extraction failed''
                                | Some e \<Rightarrow> if e \<noteq> [] then e else ''Extraction failed''))
          else (case schema (extractPayload d) of
                  Inl zm \<Rightarrow> Inl (ZodError zm)
                | Inr parsed \<Rightarrow> Inr parsed))"

definition extractData ::
  "(json \<Rightarrow> string + json) \<Rightarrow> extract_data http_reply \<Rightarrow> js_error + json" where
  "extractData schema reply =
     (case extractRequest schema reply of
        Inl thrown \<Rightarrow> Inl (BrowserError (''Failed to extract data: '' @ message thrown) thrown)
      | Inr parsed \<Rightarrow> Inr parsed)"


section \<open>BrowserAgent\<close>

datatype session_status =
  Starting | Ready | Active | Idle | Stopping | Stopped | Error
  | Connecting | Connected | Disconnected | Disabled

datatype color_scheme = Light | Dark

record viewport_size =
  width :: int
  height :: int

text \<open>\<^verbatim>\<open>SessionState\<close>; the field \<^verbatim>\<open>id\<close> is \<open>id_s\<close> here.\<close>

record session_state =
  id_s :: string
  name :: "string option"
  status :: session_status
  viewUrl :: string
  cdpUrl :: string
  wsEndpoint :: "string option"
  createdAt :: int
  lastActivity :: int
  viewport :: viewport_size
  colorScheme :: "color_scheme option"
  error :: "string option"

text \<open>
  The agent with what its methods read and write outside of it: \<open>session\<close> and
  \<open>workerUrl\<close> are the fields \<^verbatim>\<open>_session\<close> and \<^verbatim>\<open>_workerUrl\<close>, \<open>agentName\<close> is
  \<^verbatim>\<open>this.name\<close>, \<open>clock\<close> is \<^verbatim>\<open>Date.now()\<close> and \<open>circuitBreakerState\<close> the map
  of the module \<^verbatim>\<open>browser.ts\<close>. Every method is run to its end before the next one
  starts; the clock moves by the duration of each request and of each wait. A method
  returns \<open>Inl\<close> of what it throws.
\<close>

record world =
  session :: "session_state option"
  workerUrl :: string
  agentName :: string
  clock :: int
  circuitBreakerState :: cb_map

text \<open>
  \<^verbatim>\<open>await Effect.runPromise(effect)\<close>: the value of the effect, or a thrown
  \<open>FiberFailure\<close> around its failure.
\<close>

definition runPromise :: "js_error + 'a \<Rightarrow> js_error + 'a" where
  "runPromise result =
     (case result of
        Inl failure \<Rightarrow> Inl (FiberFailure failure)
      | Inr v \<Rightarrow> Inr v)"

definition DEFAULT_WORKER_URL :: string where
  "DEFAULT_WORKER_URL = ''http://localhost:1337''"

text \<open>\<^verbatim>\<open>s.replace(pat, rep)\<close> with a string pattern: the first occurrence only.\<close>

fun replaceFirst :: "string \<Rightarrow> string \<Rightarrow> string \<Rightarrow> string" where
  "replaceFirst [] pat rep = (if pat = [] then rep else [])"
| "replaceFirst (c # cs) pat rep =
     (if startsWith (c # cs) pat then rep @ drop (length pat) (c # cs)
      else c # replaceFirst cs pat rep)"

record init_options =
  opt_sessionId :: string
  opt_name :: "string option"
  opt_viewport :: "viewport_size option"
  opt_startUrl :: "string option"
  opt_workerUrl :: "string option"
  opt_colorScheme :: "color_scheme option"

definition tick :: "int \<Rightarrow> world \<Rightarrow> world" where
  "tick d w = w\<lparr>clock := clock w + d\<rparr>"

definition statusOf :: "world \<Rightarrow> session_status option" where
  "statusOf w = map_option status (session w)"

text \<open>
  \<^verbatim>\<open>BrowserAgent.initialize\<close>. The two readings of \<^verbatim>\<open>Date.now()\<close> in the new
  record are one reading of the clock. What its \<^verbatim>\<open>catch\<close> receives is the
  \<open>FiberFailure\<close>, so it stores the message of that and throws a new
  \<open>ContainerStartError\<close> with it as the cause.
\<close>

definition initialize ::
  "world \<Rightarrow> init_options \<Rightarrow> (nat \<Rightarrow> int \<times> start_data http_reply) \<Rightarrow> (js_error + unit) \<times> world" where
  "initialize w options container =
     (let sessionId = opt_sessionId options;
          fallbackUrl = (if workerUrl w \<noteq> [] then workerUrl w else DEFAULT_WORKER_URL);
          baseUrl = (case opt_workerUrl options of
                       Some u \<Rightarrow> if u \<noteq> [] then u else fallbackUrl
                     | None \<Rightarrow> fallbackUrl);
          s = \<lparr>id_s = sessionId,
               name = opt_name options,
               status = Starting,
               viewUrl = baseUrl @ ''/view/'' @ sessionId,
               cdpUrl = replaceFirst baseUrl ''http'' ''ws'' @ ''/cdp/'' @ sessionId,
               wsEndpoint = None,
               createdAt = clock w,
               lastActivity = clock w,
               viewport = (case opt_viewport options of
                             Some v \<Rightarrow> v
                           | None \<Rightarrow> \<lparr>width = 1280, height = 720\<rparr>),
               colorScheme = Some (case opt_colorScheme options of Some c \<Rightarrow> c | None \<Rightarrow> Dark),
               error = None\<rparr>;
          r = startBrowser container sessionId (circuitBreakerState w) (clock w);
          w = w\<lparr>workerUrl := baseUrl, clock := clock w + elapsed r,
                circuitBreakerState := breaker r\<rparr>
      in case runPromise (outcome r) of
           Inr d \<Rightarrow>
             (Inr (), w\<lparr>session := Some (s\<lparr>status := Ready, wsEndpoint := dataWsEndpoint d\<rparr>)\<rparr>)
         | Inl e \<Rightarrow>
             (Inl (toContainerStartError sessionId e),
              w\<lparr>session := Some (s\<lparr>status := Error, error := Some (message e)\<rparr>)\<rparr>))"

text \<open>
  The two polling loops of \<^verbatim>\<open>ensureInitialized\<close>; the first argument is the number of
  polls left of \<^verbatim>\<open>maxAttempts = 60\<close>, each after a wait of 1000 ms.
  \<open>initFailedMessage\<close> is \<^verbatim>\<open>this._session?.error ?? 'Browser initialization failed'\<close>.
\<close>

fun waitWhileStarting :: "nat \<Rightarrow> world \<Rightarrow> world" where
  "waitWhileStarting 0 w = w"
| "waitWhileStarting (Suc n) w =
     (if statusOf w = Some Starting then waitWhileStarting n (tick 1000 w) else w)"

text \<open>
  The argument of the call of \<^verbatim>\<open>initialize\<close> in \<^verbatim>\<open>ensureInitialized\<close>: the last
  known configuration, with the defaults of the code.
\<close>

definition reinitOptions :: "world \<Rightarrow> string \<Rightarrow> init_options" where
  "reinitOptions w sessionId =
     \<lparr>opt_sessionId = sessionId,
      opt_name = Some (case Option.bind (session w) name of
                         Some n \<Rightarrow> n
                       | None \<Rightarrow> sessionId),
      opt_viewport = Some (case session w of
                             Some s \<Rightarrow> viewport s
                           | None \<Rightarrow> \<lparr>width = 1280, height = 720\<rparr>),
      opt_startUrl = None,
      opt_workerUrl = Some (if workerUrl w \<noteq> [] then workerUrl w else DEFAULT_WORKER_URL),
      opt_colorScheme = Some (case Option.bind (session w) colorScheme of
                                Some c \<Rightarrow> c
                              | None \<Rightarrow> Dark)\<rparr>"

definition initFailedMessage :: "world \<Rightarrow> string" where
  "initFailedMessage w =
     (case Option.bind (session w) error of
        Some m \<Rightarrow> m
      | None \<Rightarrow> ''Browser initialization failed'')"

fun waitAfterInitialize :: "nat \<Rightarrow> string \<Rightarrow> world \<Rightarrow> (js_error + unit) \<times> world" where
  "waitAfterInitialize 0 sessionId w =
     (if statusOf w \<noteq> Some Ready
      then (Inl (SessionNotConnectedError ''Browser initialization timeout'' sessionId), w)
      else (Inr (), w))"
| "waitAfterInitialize (Suc n) sessionId w =
     (if statusOf w = Some Ready then (Inr (), w)
      else if statusOf w = Some Error
      then (Inl (SessionNotConnectedError (initFailedMessage w) sessionId), w)
      else waitAfterInitialize n sessionId (tick 1000 w))"

definition ensureInitialized ::
  "world \<Rightarrow> (nat \<Rightarrow> int \<times> start_data http_reply) \<Rightarrow> (js_error + unit) \<times> world" where
  "ensureInitialized w container =
     (if statusOf w = Some Ready then (Inr (), w)
      else
        let sessionId = (case session w of Some s \<Rightarrow> id_s s | None \<Rightarrow> agentName w) in
        if statusOf w = Some Error
        then (Inl (SessionNotConnectedError (initFailedMessage w) sessionId), w)
        else if statusOf w = Some Starting
        then
          (let w = waitWhileStarting 60 w in
           if statusOf w = Some Ready then (Inr (), w)
           else if statusOf w = Some Error
           then (Inl (SessionNotConnectedError (initFailedMessage w) sessionId), w)
           else (Inl (SessionNotConnectedError ''Browser initialization timeout'' sessionId), w))
        else if session w = None \<or> statusOf w = Some Stopped
        then
          (case initialize w (reinitOptions w sessionId) container of
             (Inl e, w) \<Rightarrow> (Inl e, w)
           | (Inr u, w) \<Rightarrow> waitAfterInitialize 60 sessionId w)
        else (Inl (SessionNotConnectedError ''Browser not initialized or not ready'' sessionId), w))"

text \<open>\<^verbatim>\<open>this._session!.lastActivity = Date.now()\<close> and the like.\<close>

definition touch :: "world \<Rightarrow> world" where
  "touch w = w\<lparr>session := map_option (\<lambda>s. s\<lparr>lastActivity := clock w\<rparr>) (session w)\<rparr>"

text \<open>
  The session-scoped methods. Each takes the behaviour of the container for a start (used
  when \<open>ensureInitialized\<close> has to initialize) and the duration and end of its own
  request. \<open>extract_agent\<close> is the method \<^verbatim>\<open>extract\<close>.
\<close>

definition goto ::
  "world \<Rightarrow> string \<Rightarrow> (nat \<Rightarrow> int \<times> start_data http_reply) \<Rightarrow> int \<times> unit http_reply
     \<Rightarrow> (js_error + unit) \<times> world" where
  "goto w url container reply =
     (case ensureInitialized w container of
        (Inl e, w) \<Rightarrow> (Inl e, w)
      | (Inr u, w) \<Rightarrow>
          (case runPromise (navigateBrowser url (snd reply)) of
             Inl e \<Rightarrow> (Inl e, tick (fst reply) w)
           | Inr u \<Rightarrow> (Inr (), touch (tick (fst reply) w))))"

definition act ::
  "world \<Rightarrow> (nat \<Rightarrow> int \<times> start_data http_reply) \<Rightarrow> int \<times> unit http_reply
     \<Rightarrow> (js_error + unit) \<times> world" where
  "act w container reply =
     (case ensureInitialized w container of
        (Inl e, w) \<Rightarrow> (Inl e, w)
      | (Inr u, w) \<Rightarrow>
          (case runPromise (sendInstruction (snd reply)) of
             Inl e \<Rightarrow> (Inl e, tick (fst reply) w)
           | Inr u \<Rightarrow> (Inr (), touch (tick (fst reply) w))))"

definition extract_agent ::
  "world \<Rightarrow> (json \<Rightarrow> string + json) \<Rightarrow> (nat \<Rightarrow> int \<times> start_data http_reply)
     \<Rightarrow> int \<times> extract_data http_reply \<Rightarrow> (js_error + json) \<times> world" where
  "extract_agent w schema container reply =
     (case ensureInitialized w container of
        (Inl e, w) \<Rightarrow> (Inl e, w)
      | (Inr u, w) \<Rightarrow>
          (case runPromise (extractData schema (snd reply)) of
             Inl e \<Rightarrow> (Inl e, tick (fst reply) w)
           | Inr result \<Rightarrow> (Inr result, touch (tick (fst reply) w))))"

definition resize ::
  "world \<Rightarrow> viewport_size \<Rightarrow> (nat \<Rightarrow> int \<times> start_data http_reply) \<Rightarrow> int \<times> unit http_reply
     \<Rightarrow> (js_error + unit) \<times> world" where
  "resize w v container reply =
     (case ensureInitialized w container of
        (Inl e, w) \<Rightarrow> (Inl e, w)
      | (Inr u, w) \<Rightarrow>
          (case runPromise (resizeBrowser (snd reply)) of
             Inl e \<Rightarrow> (Inl e, tick (fst reply) w)
           | Inr u \<Rightarrow>
               (let w = tick (fst reply) w in
                (Inr (),
                 touch (w\<lparr>session := map_option (\<lambda>s. s\<lparr>viewport := v\<rparr>) (session w)\<rparr>)))))"

definition reload ::
  "world \<Rightarrow> (nat \<Rightarrow> int \<times> start_data http_reply) \<Rightarrow> int \<times> unit http_reply
     \<Rightarrow> (js_error + unit) \<times> world" where
  "reload w container reply =
     (case ensureInitialized w container of
        (Inl e, w) \<Rightarrow> (Inl e, w)
      | (Inr u, w) \<Rightarrow>
          (case runPromise (reloadBrowser (snd reply)) of
             Inl e \<Rightarrow> (Inl e, tick (fst reply) w)
           | Inr u \<Rightarrow> (Inr (), touch (tick (fst reply) w))))"

text \<open>
  \<^verbatim>\<open>BrowserAgent.stop\<close>. \<open>attempt\<close> is what happens inside its \<^verbatim>\<open>try\<close>: the
  evaluation of \<^verbatim>\<open>stopBrowser(this.getContainer(), id)\<close> throws (\<open>Inl\<close>), or the
  stop request is sent and takes the given time and end. The \<^verbatim>\<open>catch\<close> logs.
\<close>

definition stop ::
  "world \<Rightarrow> js_error + int \<times> unit http_reply \<Rightarrow> (js_error + unit) \<times> world" where
  "stop w attempt =
     (case session w of
        None \<Rightarrow> (Inr (), w)
      | Some s0 \<Rightarrow>
          (let w = w\<lparr>session := Some (s0\<lparr>status := Stopping\<rparr>)\<rparr>;
               tried = (case attempt of
                          Inl e \<Rightarrow> (Inl e, w)
                        | Inr reply \<Rightarrow>
                            (runPromise (stopBrowser (snd reply)), tick (fst reply) w));
               w = (case tried of
                      (Inl e, w) \<Rightarrow> w
                    | (Inr u, w) \<Rightarrow> w)
           in (Inr (), w\<lparr>session := map_option (\<lambda>s. s\<lparr>status := Stopped\<rparr>) (session w)\<rparr>)))"

text \<open>A call of one of the methods that write the session, and a pause between calls.\<close>

datatype operation =
    Initialize init_options "nat \<Rightarrow> int \<times> start_data http_reply"
  | Goto string "nat \<Rightarrow> int \<times> start_data http_reply" "int \<times> unit http_reply"
  | Act "nat \<Rightarrow> int \<times> start_data http_reply" "int \<times> unit http_reply"
  | Extract "json \<Rightarrow> string + json" "nat \<Rightarrow> int \<times> start_data http_reply"
      "int \<times> extract_data http_reply"
  | Resize viewport_size "nat \<Rightarrow> int \<times> start_data http_reply" "int \<times> unit http_reply"
  | Reload "nat \<Rightarrow> int \<times> start_data http_reply" "int \<times> unit http_reply"
  | Stop "js_error + int \<times> unit http_reply"
  | Pause int

fun perform :: "world \<Rightarrow> operation \<Rightarrow> world" where
  "perform w (Initialize options container) = snd (initialize w options container)"
| "perform w (Goto url container reply) = snd (goto w url container reply)"
| "perform w (Act container reply) = snd (act w container reply)"
| "perform w (Extract schema container reply) = snd (extract_agent w schema container reply)"
| "perform w (Resize v container reply) = snd (resize w v container reply)"
| "perform w (Reload container reply) = snd (reload w container reply)"
| "perform w (Stop attempt) = snd (stop w attempt)"
| "perform w (Pause d) = tick d w"

fun run :: "world \<Rightarrow> operation list \<Rightarrow> world" where
  "run w [] = w"
| "run w (x # xs) = run (perform w x) xs"

text \<open>An agent on which no method has been called yet.\<close>

definition fresh :: "string \<Rightarrow> int \<Rightarrow> world" where
  "fresh agent now =
     \<lparr>session = None, workerUrl = [], agentName = agent, clock = now,
      circuitBreakerState = Map.empty\<rparr>"

section \<open>Confirmation\<close>

text \<open>
  \<^verbatim>\<open>confirm\<close> and \<^verbatim>\<open>resolveConfirmation\<close> with the timers they leave behind.
  \<open>confirmationPromise\<close> is the field \<^verbatim>\<open>_confirmationPromise\<close>, holding the number
  of the promise whose \<^verbatim>\<open>resolve\<close> it stores (promises are numbered in the order of
  the calls of \<^verbatim>\<open>confirm\<close>); \<open>timers\<close> are the times at which the callbacks given
  to \<^verbatim>\<open>setTimeout\<close> are due; \<open>resolved\<close> lists which promise was resolved to which
  value at which time. The callback of a timer reads the field when it fires, not the promise
  of the call that armed it.
\<close>

definition CONFIRMATION_TIMEOUT_MS :: int where
  "CONFIRMATION_TIMEOUT_MS = 60000"

record gate =
  confirmationPromise :: "nat option"
  timers :: "int list"
  resolved :: "(nat \<times> bool \<times> int) list"
  created :: nat
  gateClock :: int

text \<open>
  The delay that \<^verbatim>\<open>setTimeout\<close> really waits: a delay above \<open>2^31 - 1\<close> ms or
  below 1 ms is set to 1 ms.
\<close>

definition timerDelay :: "int \<Rightarrow> int" where
  "timerDelay ms = (if ms > 2147483647 \<or> ms < 1 then 1 else ms)"

definition confirm :: "world \<Rightarrow> gate \<Rightarrow> int option \<Rightarrow> (js_error + nat) \<times> gate" where
  "confirm w g timeout =
     (if session w = None
      then (Inl (SessionNotConnectedError ''Session not initialized'' ''unknown''), g)
      else
        (let timeoutMs = (case timeout of Some t \<Rightarrow> t | None \<Rightarrow> CONFIRMATION_TIMEOUT_MS);
             p = created g
         in (Inr p,
             g\<lparr>confirmationPromise := Some p,
               timers := timers g @ [gateClock g + timerDelay timeoutMs],
               created := p + 1\<rparr>)))"

definition timerCallback :: "gate \<Rightarrow> gate" where
  "timerCallback g =
     (case confirmationPromise g of
        Some p \<Rightarrow>
          g\<lparr>resolved := resolved g @ [(p, False, gateClock g)], confirmationPromise := None\<rparr>
      | None \<Rightarrow> g)"

definition resolveConfirmation :: "gate \<Rightarrow> bool \<Rightarrow> gate" where
  "resolveConfirmation g v =
     (case confirmationPromise g of
        Some p \<Rightarrow>
          g\<lparr>resolved := resolved g @ [(p, v, gateClock g)], confirmationPromise := None\<rparr>
      | None \<Rightarrow> g)"

text \<open>Time passes until \<open>t\<close>: the timers due by then fire, the earliest first.\<close>

fun fireTimers :: "int list \<Rightarrow> gate \<Rightarrow> gate" where
  "fireTimers [] g = g"
| "fireTimers (d # ds) g =
     fireTimers ds (timerCallback (g\<lparr>gateClock := max (gateClock g) d\<rparr>))"

definition advanceTo :: "int \<Rightarrow> gate \<Rightarrow> gate" where
  "advanceTo t g =
     (let due = sort (filter (\<lambda>d. d \<le> t) (timers g));
          g = fireTimers due (g\<lparr>timers := filter (\<lambda>d. \<not> d \<le> t) (timers g)\<rparr>)
      in g\<lparr>gateClock := max (gateClock g) t\<rparr>)"

datatype gate_call = Confirm "int option" | ResolveConfirmation bool

text \<open>Calls made at the given times, in order.\<close>

fun gateRun :: "world \<Rightarrow> gate \<Rightarrow> (int \<times> gate_call) list \<Rightarrow> gate" where
  "gateRun w g [] = g"
| "gateRun w g ((t, Confirm timeout) # xs) =
     gateRun w (snd (confirm w (advanceTo t g) timeout)) xs"
| "gateRun w g ((t, ResolveConfirmation v) # xs) =
     gateRun w (resolveConfirmation (advanceTo t g) v) xs"

definition idleGate :: "int \<Rightarrow> gate" where
  "idleGate now =
     \<lparr>confirmationPromise = None, timers = [], resolved = [], created = 0, gateClock = now\<rparr>"

section \<open>Status and error detail\<close>

text \<open>
  The status and the error detail of the session, and how a method may change them: not at
  all, or to what \<open>initialize\<close> leaves (`ready' without detail, or `error' with one).
  \<open>detailOk\<close> is the relation between the two that every method keeps.
\<close>

definition detail :: "world \<Rightarrow> (session_status \<times> string option) option" where
  "detail w = map_option (\<lambda>s. (status s, error s)) (session w)"

definition settled :: "world \<Rightarrow> world \<Rightarrow> bool" where
  "settled w w' =
     (detail w' = detail w \<or> detail w' = Some (Ready, None) \<or>
      (case detail w' of
         Some (st, e) \<Rightarrow> st = Error \<and> e \<noteq> None
       | None \<Rightarrow> False))"

definition detailOk :: "world \<Rightarrow> bool" where
  "detailOk w =
     (case detail w of
        None \<Rightarrow> True
      | Some (st, e) \<Rightarrow>
          (st = Error \<longrightarrow> e \<noteq> None) \<and> (e \<noteq> None \<longrightarrow> st = Error \<or> st = Stopped))"

section \<open>Properties of the circuit breaker and of the start operation\<close>

lemma recordCircuitBreakerFailure_other:
  "other \<noteq> sessionId \<Longrightarrow> recordCircuitBreakerFailure cb sessionId now other = cb other"
  by (simp add: recordCircuitBreakerFailure_def Let_def)

lemma checkCircuitBreaker_rejects_iff:
  "\<not> fst (checkCircuitBreaker cb sessionId now) \<longleftrightarrow>
     (\<exists>state. cb sessionId = Some state \<and> isOpen state \<and>
        now - lastFailure state \<le> CIRCUIT_BREAKER_WINDOW_MS)"
  by (auto simp: checkCircuitBreaker_def CIRCUIT_BREAKER_WINDOW_MS_def
        CIRCUIT_BREAKER_COOLDOWN_MS_def split: option.splits)

lemma checkCircuitBreaker_rejects_keeps_map:
  "\<not> fst (checkCircuitBreaker cb sessionId now) \<Longrightarrow>
     snd (checkCircuitBreaker cb sessionId now) = cb"
  by (auto simp: checkCircuitBreaker_def split: option.splits if_splits)

lemma startBrowser_rejected:
  "\<not> fst (checkCircuitBreaker cb sessionId now) \<Longrightarrow>
   startBrowser container sessionId cb now
     = \<lparr>outcome = Inl (ContainerStartError (circuitOpenMessage sessionId) sessionId None),
        calls = 0, waits = [], elapsed = 0, breaker = cb\<rparr>"
  using checkCircuitBreaker_rejects_keeps_map [of cb sessionId now]
  by (cases "checkCircuitBreaker cb sessionId now") (simp add: startBrowser_def)

lemma retryLoop_success_clears:
  "outcome (retryLoop c sid t0 k el ws cb) = Inr d \<Longrightarrow>
   breaker (retryLoop c sid t0 k el ws cb) sid = None"
proof (induction c sid t0 k el ws cb rule: retryLoop.induct)
  case (1 c sid t0 k el ws cb)
  show ?case
    using "1.prems" "1.IH"
    by (subst retryLoop.simps, subst (asm) (1 2) retryLoop.simps)
       (auto simp: Let_def startTimedOut_def recordCircuitBreakerSuccess_def
             split: sum.splits if_splits)
qed

lemma retryLoop_calls_le:
  "k \<le> 20 \<Longrightarrow> calls (retryLoop c sid t0 k el ws cb) \<le> 21"
proof (induction c sid t0 k el ws cb rule: retryLoop.induct)
  case (1 c sid t0 k el ws cb)
  show ?case
    using "1.prems" "1.IH"
    by (subst retryLoop.simps)
       (auto simp: Let_def startTimedOut_def containerRetryContinues_def
             split: sum.splits)
qed

lemma retryLoop_calls_gt: "k < calls (retryLoop c sid t0 k el ws cb)"
proof (induction c sid t0 k el ws cb rule: retryLoop.induct)
  case (1 c sid t0 k el ws cb)
  show ?case
    using "1.IH"
    by (subst retryLoop.simps)
       (fastforce simp: Let_def startTimedOut_def split: sum.splits)
qed

lemma containerRetryDelay_le: "containerRetryDelay k \<le> 5000"
  by (simp add: containerRetryDelay_def)

lemma retryLoop_waits_capped:
  "\<forall>w \<in> set ws. w \<le> 5000 \<Longrightarrow>
   \<forall>w \<in> set (waits (retryLoop c sid t0 k el ws cb)). w \<le> 5000"
proof (induction c sid t0 k el ws cb rule: retryLoop.induct)
  case (1 c sid t0 k el ws cb)
  show ?case
    using "1.prems" "1.IH" containerRetryDelay_le [of k]
    by (subst retryLoop.simps)
       (auto simp: Let_def startTimedOut_def split: sum.splits)
qed

lemma startBrowser_error_is_ContainerStartError:
  "outcome (retryLoop c sid t0 k el ws cb) = Inl e \<Longrightarrow> \<exists>m s cause. e = ContainerStartError m s cause"
proof (induction c sid t0 k el ws cb rule: retryLoop.induct)
  case (1 c sid t0 k el ws cb)
  have wrap: "\<exists>m s cause. toContainerStartError sid x = ContainerStartError m s cause" for x
    by (cases x) simp_all
  show ?case
    using "1.prems" "1.IH" wrap
    by (subst (asm) (1) retryLoop.simps)
       (auto simp: Let_def startTimedOut_def split: sum.splits if_splits)
qed

lemma containerRetryDelay_values:
  "containerRetryDelay 0 = 1000 \<and> containerRetryDelay 1 = 2000 \<and>
   containerRetryDelay 2 = 4000 \<and> (3 \<le> k \<longrightarrow> containerRetryDelay k = 5000)"
proof -
  have "3 \<le> k \<longrightarrow> (8 :: int) \<le> 2 ^ k"
  proof
    assume "3 \<le> k"
    then have "(2 :: int) ^ 3 \<le> 2 ^ k"
      by (intro power_increasing) simp_all
    then show "(8 :: int) \<le> 2 ^ k" by simp
  qed
  then show ?thesis
    by (auto simp: containerRetryDelay_def exponentialDelay_def)
qed

lemma retryLoop_deadline:
  "START_TIMEOUT_MS < el + fst (container k) \<Longrightarrow>
   outcome (retryLoop container sid t0 k el ws cb)
     = Inl (ContainerStartError ''Container start timeout after 2 minutes'' sid None)"
  by (subst retryLoop.simps) (simp add: Let_def startTimedOut_def)

lemma retryLoop_elapsed_le:
  "el \<le> START_TIMEOUT_MS \<Longrightarrow> elapsed (retryLoop c sid t0 k el ws cb) \<le> START_TIMEOUT_MS"
proof (induction c sid t0 k el ws cb rule: retryLoop.induct)
  case (1 c sid t0 k el ws cb)
  show ?case
    using "1.prems" "1.IH"
    by (subst retryLoop.simps)
       (auto simp: Let_def startTimedOut_def split: sum.splits)
qed

lemma isRetryableError_startCatch [simp]:
  "isRetryableError (startCatch sid thrown) = isRetryableError thrown"
  by (simp add: startCatch_def isRetryableError_def)

lemma retryLoop_not_retryable_once:
  "startRequest (snd (container k)) = Inl thrown \<Longrightarrow> \<not> isRetryableError thrown \<Longrightarrow>
   calls (retryLoop container sid t0 k el ws cb) = k + 1"
  by (subst retryLoop.simps)
     (simp add: Let_def startTimedOut_def containerRetryContinues_def)

lemma start_422_single_attempt:
  "calls (startBrowser (\<lambda>k. (10, NotOk 422 ''invalid viewport'')) ''s1'' Map.empty 0) = 1 \<and>
   outcome (startBrowser (\<lambda>k. (10, NotOk 422 ''invalid viewport'')) ''s1'' Map.empty 0)
     = Inl (ContainerStartError ''Container start failed (non-retryable): invalid viewport''
              ''s1''
              (Some (PlainError ''Container start failed (non-retryable): invalid viewport'')))"
  by code_simp

lemma refused_retryable: "isRetryableError (PlainError ''Connection refused'')"
  by (simp add: isRetryableError_def)

lemma refused_not_fatal: "\<not> isNonRetryableError (PlainError ''Connection refused'')"
  by (simp add: isNonRetryableError_def)

lemma refused_calls:
  "k \<le> 20 \<Longrightarrow> el \<le> 5010 * int k \<Longrightarrow>
   calls (retryLoop (\<lambda>k. (10, Rejects ''Connection refused'')) sid t0 k el ws cb) = 21"
proof (induction "20 - k" arbitrary: k el ws cb)
  case 0
  then have k: "k = 20" by simp
  show ?case
    using 0 unfolding k
    by (subst retryLoop.simps)
       (simp add: Let_def START_TIMEOUT_MS_def startRequest_def startCatch_def
          refused_not_fatal containerRetryContinues_def)
next
  case (Suc n)
  then have k: "k < 20" "n = 20 - Suc k" by simp_all
  have d: "containerRetryDelay k \<le> 5000" by (rule containerRetryDelay_le)
  have IH: "calls (retryLoop (\<lambda>k. (10, Rejects ''Connection refused'')) sid t0 (Suc k)
              (el + 10 + containerRetryDelay k) (ws @ [containerRetryDelay k])
              (recordCircuitBreakerFailure cb sid (t0 + (el + 10)))) = 21"
    using Suc.hyps(1)[OF k(2)] k(1) Suc.prems(2) d by simp
  show ?case
    using k(1) Suc.prems(2) d IH
    by (subst retryLoop.simps)
       (simp add: Let_def START_TIMEOUT_MS_def startRequest_def startCatch_def
          refused_not_fatal refused_retryable containerRetryContinues_def)
qed

text \<open>
  C1. After five consecutive failures for a session id the breaker is open and the next
  start is rejected with the circuit-open error before any request is sent. The claim lets
  this rejection last until 10 minutes have passed since the last failure. In the code the
  window test of \<open>checkCircuitBreaker\<close> comes first and deletes the entry after 5 minutes
  whether or not it is open, so the cooldown test below it is never reached with a true
  condition: a start 5 minutes and 1 ms after the last failure is let through and sends a
  request.
\<close>

theorem C1_open_breaker_allows_after_window:
  "recordFailures Map.empty ''s2'' [0, 1000, 2000, 3000, 4000] ''s2''
     = Some \<lparr>failures = 5, lastFailure = 4000, isOpen = True\<rparr> \<and>
   outcome (startBrowser (\<lambda>k. (10, OkJson \<lparr>dataSuccess = True, dataError = None, dataWsEndpoint = None\<rparr>))
      ''s2'' (recordFailures Map.empty ''s2'' [0, 1000, 2000, 3000, 4000]) 4001)
     = Inl (ContainerStartError (circuitOpenMessage ''s2'') ''s2'' None) \<and>
   calls (startBrowser (\<lambda>k. (10, OkJson \<lparr>dataSuccess = True, dataError = None, dataWsEndpoint = None\<rparr>))
      ''s2'' (recordFailures Map.empty ''s2'' [0, 1000, 2000, 3000, 4000]) 4001) = 0 \<and>
   calls (startBrowser (\<lambda>k. (10, OkJson \<lparr>dataSuccess = True, dataError = None, dataWsEndpoint = None\<rparr>))
      ''s2'' (recordFailures Map.empty ''s2'' [0, 1000, 2000, 3000, 4000]) 304001) = 1"
  by (simp add: recordCircuitBreakerFailure_def CIRCUIT_BREAKER_THRESHOLD_def Let_def
        startBrowser_def checkCircuitBreaker_def CIRCUIT_BREAKER_WINDOW_MS_def
        CIRCUIT_BREAKER_COOLDOWN_MS_def retryLoop.simps [of _ _ _ 0] START_TIMEOUT_MS_def
        startRequest_def)

text \<open>
  C2. The classifier \<open>isNonRetryableError\<close> only decides whether the failure is wrapped
  into a \<open>ContainerStartError\<close>; the retry schedule asks \<open>isRetryableError\<close> alone.
  A response with status 408 and body "Request timeout" gives a message that is tagged
  non-retryable and also contains "timeout", and the start operation sends a second
  request after it.
\<close>

theorem C2_tagged_non_retryable_is_retried:
  "startRequest (NotOk 408 ''Request timeout'')
     = Inl (PlainError ''Container start failed (non-retryable): Request timeout'') \<and>
   isNonRetryableError (PlainError ''Container start failed (non-retryable): Request timeout'') \<and>
   calls (startBrowser
      (\<lambda>k. if k = 0 then (10, NotOk 408 ''Request timeout'')
            else (10, OkJson \<lparr>dataSuccess = True, dataError = None, dataWsEndpoint = None\<rparr>))
      ''s1'' Map.empty 0) = 2"
  by code_simp

text \<open>
  C3. With a container that refuses every connection at once, the start operation sends
  21 requests: \<^verbatim>\<open>Schedule.recurs(20)\<close> allows 20 retries after the first request, one
  more than the 20 attempts of the claim and of the comment in the code.
\<close>

theorem C3_refused_start_makes_21_calls:
  "calls (startBrowser (\<lambda>k. (10, Rejects ''Connection refused'')) ''s1'' Map.empty 0) = 21"
  by (simp add: startBrowser_def checkCircuitBreaker_def refused_calls)

text \<open>
  C4. A successful start deletes the entry of its session id from the map of the circuit
  breaker, whatever it held. So after four failures, one success and four more failures
  (at any clock readings) the entry counts four failures and is not open, and the next
  check lets the start through.
\<close>

theorem C4_success_resets_breaker:
  "(outcome (startBrowser container sessionId cb now) = Inr d \<longrightarrow>
      breaker (startBrowser container sessionId cb now) sessionId = None) \<and>
   recordCircuitBreakerSuccess cb sessionId sessionId = None \<and>
   recordFailures
     (recordCircuitBreakerSuccess (recordFailures cb sessionId [t1, t2, t3, t4]) sessionId)
     sessionId [t5, t6, t7, t8] sessionId
     = Some \<lparr>failures = 4, lastFailure = t8, isOpen = False\<rparr> \<and>
   fst (checkCircuitBreaker
     (recordFailures
        (recordCircuitBreakerSuccess (recordFailures cb sessionId [t1, t2, t3, t4]) sessionId)
        sessionId [t5, t6, t7, t8]) sessionId t9)"
proof -
  have start: "outcome (startBrowser container sessionId cb now) = Inr d \<longrightarrow>
      breaker (startBrowser container sessionId cb now) sessionId = None"
    by (auto simp: startBrowser_def retryLoop_success_clears split: prod.splits bool.splits)
  have entry: "recordFailures
     (recordCircuitBreakerSuccess (recordFailures cb sessionId [t1, t2, t3, t4]) sessionId)
     sessionId [t5, t6, t7, t8] sessionId
     = Some \<lparr>failures = 4, lastFailure = t8, isOpen = False\<rparr>"
    by (simp add: recordCircuitBreakerFailure_def recordCircuitBreakerSuccess_def
          CIRCUIT_BREAKER_THRESHOLD_def Let_def)
  have check: "fst (checkCircuitBreaker
     (recordFailures
        (recordCircuitBreakerSuccess (recordFailures cb sessionId [t1, t2, t3, t4]) sessionId)
        sessionId [t5, t6, t7, t8]) sessionId t9)"
    using entry by (simp add: checkCircuitBreaker_def)
  show ?thesis
    using start entry check by (simp add: recordCircuitBreakerSuccess_def)
qed

theorem C4_success_resets_breaker_witness:
  "outcome (startBrowser
      (\<lambda>k. (10, OkJson \<lparr>dataSuccess = True, dataError = None, dataWsEndpoint = None\<rparr>))
      ''s1'' (recordFailures Map.empty ''s1'' [0, 1000, 2000, 3000]) 4000)
     = Inr \<lparr>dataSuccess = True, dataError = None, dataWsEndpoint = None\<rparr> \<and>
   breaker (startBrowser
      (\<lambda>k. (10, OkJson \<lparr>dataSuccess = True, dataError = None, dataWsEndpoint = None\<rparr>))
      ''s1'' (recordFailures Map.empty ''s1'' [0, 1000, 2000, 3000]) 4000) ''s1'' = None"
proof -
  have ok: "outcome (startBrowser
      (\<lambda>k. (10, OkJson \<lparr>dataSuccess = True, dataError = None, dataWsEndpoint = None\<rparr>))
      ''s1'' (recordFailures Map.empty ''s1'' [0, 1000, 2000, 3000]) 4000)
     = Inr \<lparr>dataSuccess = True, dataError = None, dataWsEndpoint = None\<rparr>"
    by (simp add: recordCircuitBreakerFailure_def CIRCUIT_BREAKER_THRESHOLD_def Let_def
        startBrowser_def checkCircuitBreaker_def CIRCUIT_BREAKER_WINDOW_MS_def
        retryLoop.simps [of _ _ _ 0] START_TIMEOUT_MS_def startRequest_def)
  show ?thesis
    using ok C4_success_resets_breaker
      [of "\<lambda>k. (10, OkJson \<lparr>dataSuccess = True, dataError = None, dataWsEndpoint = None\<rparr>)"
          "''s1''" "recordFailures Map.empty ''s1'' [0, 1000, 2000, 3000]" 4000
          "\<lparr>dataSuccess = True, dataError = None, dataWsEndpoint = None\<rparr>"]
    by blast
qed

text \<open>
  C5. A check of an open entry whose last failure is more than 5 minutes old deletes the
  entry and allows the start: the window test does not look at \<open>isOpen\<close>. The claim
  exempts open entries from this rule.
\<close>

theorem C5_window_rule_removes_open_entry:
  "map_option isOpen (recordFailures Map.empty ''s2'' [0, 1000, 2000, 3000, 4000] ''s2'')
     = Some True \<and>
   fst (checkCircuitBreaker
          (recordFailures Map.empty ''s2'' [0, 1000, 2000, 3000, 4000]) ''s2'' 304001) \<and>
   snd (checkCircuitBreaker
          (recordFailures Map.empty ''s2'' [0, 1000, 2000, 3000, 4000]) ''s2'' 304001) ''s2''
     = None"
  by (simp add: recordCircuitBreakerFailure_def CIRCUIT_BREAKER_THRESHOLD_def Let_def
        checkCircuitBreaker_def CIRCUIT_BREAKER_WINDOW_MS_def)

section \<open>Properties of the session\<close>

lemma detail_tick [simp]: "detail (tick d w) = detail w"
  by (simp add: detail_def tick_def)

lemma statusOf_tick [simp]: "statusOf (tick d w) = statusOf w"
  by (simp add: statusOf_def tick_def)

lemma detail_touch [simp]: "detail (touch w) = detail w"
  by (cases "session w") (simp_all add: detail_def touch_def)

lemma detail_viewport [simp]:
  "detail (w\<lparr>session := map_option (\<lambda>s. s\<lparr>viewport := v\<rparr>) (session w)\<rparr>) = detail w"
  by (cases "session w") (simp_all add: detail_def)

lemma detail_initialize:
  "detail (snd (initialize w options container)) = Some (Ready, None) \<or>
   (\<exists>m. detail (snd (initialize w options container)) = Some (Error, Some m))"
  by (simp add: initialize_def detail_def Let_def runPromise_def split: sum.splits)

lemma initialize_session: "session (snd (initialize w options container)) \<noteq> None"
  by (simp add: initialize_def Let_def runPromise_def split: sum.splits)

lemma detail_waitWhileStarting [simp]: "detail (waitWhileStarting n w) = detail w"
  by (induction n arbitrary: w) simp_all

lemma detail_waitAfterInitialize [simp]:
  "detail (snd (waitAfterInitialize n sessionId w)) = detail w"
  by (induction n arbitrary: w) simp_all

lemma settled_refl: "settled w w"
  by (simp add: settled_def)

lemma settled_initialize: "settled w (snd (initialize w options container))"
  using detail_initialize [of w options container] by (auto simp: settled_def)

lemma settled_ensureInitialized: "settled w (snd (ensureInitialized w container))"
proof -
  let ?sid = "case session w of Some s \<Rightarrow> id_s s | None \<Rightarrow> agentName w"
  obtain r w' where init: "initialize w (reinitOptions w ?sid) container = (r, w')"
    by (cases "initialize w (reinitOptions w ?sid) container")
  have w': "settled w w'"
    using settled_initialize [of w "reinitOptions w ?sid" container] init by simp
  then have wait: "settled w (snd (waitAfterInitialize 60 ?sid w'))"
    by (simp add: settled_def)
  show ?thesis
    using init w' wait
    by (cases r) (simp_all add: ensureInitialized_def Let_def settled_def)
qed

lemma settled_goto: "settled w (snd (goto w url container reply))"
  using settled_ensureInitialized [of w container]
  by (cases "ensureInitialized w container")
     (auto simp: goto_def settled_def runPromise_def split: sum.splits)

lemma settled_act: "settled w (snd (act w container reply))"
  using settled_ensureInitialized [of w container]
  by (cases "ensureInitialized w container")
     (auto simp: act_def settled_def runPromise_def split: sum.splits)

lemma settled_extract: "settled w (snd (extract_agent w schema container reply))"
  using settled_ensureInitialized [of w container]
  by (cases "ensureInitialized w container")
     (auto simp: extract_agent_def settled_def runPromise_def split: sum.splits)

lemma settled_reload: "settled w (snd (reload w container reply))"
  using settled_ensureInitialized [of w container]
  by (cases "ensureInitialized w container")
     (auto simp: reload_def settled_def runPromise_def split: sum.splits)

lemma settled_resize: "settled w (snd (resize w v container reply))"
  using settled_ensureInitialized [of w container]
  by (cases "ensureInitialized w container")
     (auto simp: resize_def settled_def Let_def runPromise_def split: sum.splits)

lemma detail_stop:
  "detail (snd (stop w attempt)) = map_option (\<lambda>(st, e). (Stopped, e)) (detail w)"
  by (cases "session w")
     (auto simp: stop_def detail_def Let_def tick_def runPromise_def
           split: sum.splits prod.splits)

lemma settled_detailOk: "settled w w' \<Longrightarrow> detailOk w \<Longrightarrow> detailOk w'"
  by (auto simp: settled_def detailOk_def split: option.splits)

lemma perform_detailOk: "detailOk w \<Longrightarrow> detailOk (perform w x)"
proof (cases x)
  case (Stop attempt)
  assume "detailOk w"
  then show ?thesis
    unfolding Stop by (auto simp: detailOk_def detail_stop split: option.splits)
next
  case (Pause d)
  assume "detailOk w"
  then show ?thesis unfolding Pause by (simp add: detailOk_def)
qed (auto intro: settled_detailOk settled_initialize settled_goto settled_act settled_extract
          settled_resize settled_reload)

lemma run_detailOk: "detailOk w \<Longrightarrow> detailOk (run w xs)"
  by (induction xs arbitrary: w) (simp_all add: perform_detailOk)

lemma fresh_detailOk: "detailOk (fresh agent now)"
  by (simp add: detailOk_def detail_def fresh_def)

lemma waitAfterInitialize_Ready:
  "fst (waitAfterInitialize n sessionId w) = Inr u \<Longrightarrow>
   statusOf (snd (waitAfterInitialize n sessionId w)) = Some Ready"
  by (induction n arbitrary: w) (auto split: if_splits)

lemma ensureInitialized_Ready:
  "fst (ensureInitialized w container) = Inr u \<Longrightarrow>
   statusOf (snd (ensureInitialized w container)) = Some Ready"
proof -
  assume ok: "fst (ensureInitialized w container) = Inr u"
  let ?sid = "case session w of Some s \<Rightarrow> id_s s | None \<Rightarrow> agentName w"
  obtain r w' where init: "initialize w (reinitOptions w ?sid) container = (r, w')"
    by (cases "initialize w (reinitOptions w ?sid) container")
  show ?thesis
    using ok init waitAfterInitialize_Ready [of 60 ?sid w' u]
    by (cases r) (auto simp: ensureInitialized_def Let_def split: if_splits)
qed

lemma ensureInitialized_no_request:
  "statusOf w = Some Error \<Longrightarrow>
   ensureInitialized w container
     = (Inl (SessionNotConnectedError (initFailedMessage w)
               (case session w of Some s \<Rightarrow> id_s s | None \<Rightarrow> agentName w)), w)"
  by (simp add: ensureInitialized_def)

lemma touch_lastActivity:
  "statusOf w = Some st \<Longrightarrow>
   map_option lastActivity (session (touch w)) = Some (clock (touch w)) \<and>
   statusOf (touch w) = Some st"
  by (cases "session w") (auto simp: touch_def statusOf_def)

lemma goto_lastActivity:
  "fst (goto w url container reply) = Inr u \<Longrightarrow>
   map_option lastActivity (session (snd (goto w url container reply)))
     = Some (clock (snd (goto w url container reply)))"
proof -
  assume ok: "fst (goto w url container reply) = Inr u"
  obtain r w' where e: "ensureInitialized w container = (r, w')"
    by (cases "ensureInitialized w container")
  show ?thesis
    using ok e ensureInitialized_Ready [of w container]
      touch_lastActivity [of "tick (fst reply) w'" Ready]
    by (cases r) (auto simp: goto_def runPromise_def split: sum.splits)
qed


lemma resolveConfirmation_twice:
  "resolveConfirmation (resolveConfirmation g v) v' = resolveConfirmation g v"
  by (simp add: resolveConfirmation_def split: option.splits)

lemma confirm_alone_timeout:
  "session w \<noteq> None \<Longrightarrow> confirmationPromise g = None \<Longrightarrow> timers g = [] \<Longrightarrow> 1 \<le> t \<Longrightarrow>
   t \<le> 2147483647 \<Longrightarrow> gateClock g + t \<le> horizon \<Longrightarrow>
   resolved (advanceTo horizon (snd (confirm w g (Some t))))
     = resolved g @ [(created g, False, gateClock g + t)]"
  by (simp add: confirm_def advanceTo_def timerCallback_def timerDelay_def Let_def max_def)

lemma confirm_alone_resolved:
  "session w \<noteq> None \<Longrightarrow> confirmationPromise g = None \<Longrightarrow> timers g = [] \<Longrightarrow>
   gateClock g \<le> t \<Longrightarrow> t < gateClock g + timeoutMs \<Longrightarrow> timeoutMs \<le> 2147483647 \<Longrightarrow>
   t \<le> horizon \<Longrightarrow>
   resolved (advanceTo horizon
      (resolveConfirmation (advanceTo t (snd (confirm w g (Some timeoutMs)))) v))
     = resolved g @ [(created g, v, t)]"
  by (auto simp: confirm_def advanceTo_def timerCallback_def resolveConfirmation_def
        timerDelay_def Let_def max_def)

text \<open>
  C6, as the code has it. In every state that calls of the methods, run one after the other
  on a fresh agent, can reach: if the status is `error' an error detail is stored, and if an
  error detail is stored the status is `error' or `stopped'. After \<open>initialize\<close> a status
  other than `error' has no detail. (The `if and only if' of the claim fails because
  \<open>stop\<close> keeps the detail of the session it stops; see the counterexample below.)
\<close>

theorem C6_error_detail_invariant:
  "(session (run (fresh agent now) ops) = Some s \<longrightarrow>
      (status s = Error \<longrightarrow> error s \<noteq> None) \<and>
      (error s \<noteq> None \<longrightarrow> status s = Error \<or> status s = Stopped)) \<and>
   (session (snd (initialize w options container)) = Some s' \<and> status s' \<noteq> Error \<longrightarrow>
      error s' = None)"
proof -
  have "detailOk (run (fresh agent now) ops)"
    by (rule run_detailOk [OF fresh_detailOk])
  then have a: "session (run (fresh agent now) ops) = Some s \<longrightarrow>
      (status s = Error \<longrightarrow> error s \<noteq> None) \<and>
      (error s \<noteq> None \<longrightarrow> status s = Error \<or> status s = Stopped)"
    by (auto simp: detailOk_def detail_def)
  have b: "session (snd (initialize w options container)) = Some s' \<and> status s' \<noteq> Error \<longrightarrow>
      error s' = None"
    using detail_initialize [of w options container] by (auto simp: detail_def)
  show ?thesis using a b by blast
qed

theorem C6_error_detail_invariant_witness:
  "(\<exists>s. session (run (fresh ''s1'' 0)
            [Initialize \<lparr>opt_sessionId = ''s1'', opt_name = None, opt_viewport = None,
                         opt_startUrl = None, opt_workerUrl = None, opt_colorScheme = None\<rparr>
               (\<lambda>k. (10, NotOk 422 ''invalid viewport''))]) = Some s \<and>
        status s = Error \<and> error s \<noteq> None) \<and>
   (\<exists>s'. session (snd (initialize (fresh ''s1'' 0)
            \<lparr>opt_sessionId = ''s1'', opt_name = None, opt_viewport = None,
              opt_startUrl = None, opt_workerUrl = None, opt_colorScheme = None\<rparr>
            (\<lambda>k. (10, OkJson \<lparr>dataSuccess = True, dataError = None, dataWsEndpoint = None\<rparr>))))
          = Some s' \<and> status s' \<noteq> Error \<and> error s' = None)"
proof -
  let ?o = "\<lparr>opt_sessionId = ''s1'', opt_name = None, opt_viewport = None,
             opt_startUrl = None, opt_workerUrl = None, opt_colorScheme = None\<rparr>"
  let ?w = "run (fresh ''s1'' 0) [Initialize ?o (\<lambda>k. (10, NotOk 422 ''invalid viewport''))]"
  let ?v = "snd (initialize (fresh ''s1'' 0) ?o
              (\<lambda>k. (10, OkJson \<lparr>dataSuccess = True, dataError = None, dataWsEndpoint = None\<rparr>)))"
  have "map_option status (session ?w) = Some Error"
    by code_simp
  then obtain s where s: "session ?w = Some s" "status s = Error"
    by auto
  have "map_option status (session ?v) = Some Ready"
    by code_simp
  then obtain s' where s': "session ?v = Some s'" "status s' \<noteq> Error"
    by auto
  from s C6_error_detail_invariant [of "''s1''" 0 _ s]
  have first: "\<exists>s. session ?w = Some s \<and> status s = Error \<and> error s \<noteq> None"
    by blast
  from s' C6_error_detail_invariant [of _ _ _ _ "fresh ''s1'' 0" ?o _ s']
  have second: "\<exists>s'. session ?v = Some s' \<and> status s' \<noteq> Error \<and> error s' = None"
    by blast
  show ?thesis using first second by blast
qed

text \<open>
  The claim C6 itself fails: a session whose start failed (HTTP 422) and that is then
  stopped has status `stopped' and still carries the error detail.
\<close>

theorem C6_stopped_session_keeps_error_detail:
  "map_option (\<lambda>s. (status s, error s))
     (session (run (fresh ''s1'' 0)
        [Initialize \<lparr>opt_sessionId = ''s1'', opt_name = None, opt_viewport = None,
                     opt_startUrl = None, opt_workerUrl = None, opt_colorScheme = None\<rparr>
           (\<lambda>k. (10, NotOk 422 ''invalid viewport'')),
         Stop (Inr (5, OkJson ()))]))
   = Some (Stopped, Some ''Container start failed (non-retryable): invalid viewport'')"
  by code_simp







text \<open>
  C9. A first confirmation (default timeout) is resolved from outside after one second; a
  second one is asked for at two seconds, so that its own timeout ends at 62 seconds. At 60
  seconds the timer of the first call, never cancelled, finds the field occupied by the
  second confirmation and resolves it to false, two seconds before its own timeout and
  without any external resolution.
\<close>

theorem C9_stale_timer_resolves_later_confirmation:
  "timers (gateRun
         (snd (initialize (fresh ''s1'' 0)
            \<lparr>opt_sessionId = ''s1'', opt_name = None, opt_viewport = None,
              opt_startUrl = None, opt_workerUrl = None, opt_colorScheme = None\<rparr>
            (\<lambda>k. (10, OkJson \<lparr>dataSuccess = True, dataError = None, dataWsEndpoint = None\<rparr>))))
         (idleGate 0)
         [(0, Confirm None), (1000, ResolveConfirmation True), (2000, Confirm None)])
   = [60000, 62000] \<and>
   resolved (advanceTo 62000
      (gateRun
         (snd (initialize (fresh ''s1'' 0)
            \<lparr>opt_sessionId = ''s1'', opt_name = None, opt_viewport = None,
              opt_startUrl = None, opt_workerUrl = None, opt_colorScheme = None\<rparr>
            (\<lambda>k. (10, OkJson \<lparr>dataSuccess = True, dataError = None, dataWsEndpoint = None\<rparr>))))
         (idleGate 0)
         [(0, Confirm None), (1000, ResolveConfirmation True), (2000, Confirm None)]))
   = [(0, True, 1000), (1, False, 60000)]"
  by (simp add: initialize_session confirm_def advanceTo_def idleGate_def timerCallback_def
        resolveConfirmation_def CONFIRMATION_TIMEOUT_MS_def timerDelay_def Let_def)


end
